theory Spec2Isabelle
  imports Complex_Main "HOL-Library.Signed_Division"
begin

section \<open>Data model\<close>

text \<open>
  The entities of the clinic backend (\<^verbatim>\<open>entities/*.entity.ts\<close>), one record per TypeORM
  entity. JavaScript numbers that hold identifiers, counters and millisecond timestamps are
  integers here. Field names carry the prefix of their entity where two entities share a
  column name (\<^verbatim>\<open>id\<close>, \<^verbatim>\<open>status\<close>, \<^verbatim>\<open>patientId\<close>, \<^verbatim>\<open>createdAt\<close>, ...).
  The \<^verbatim>\<open>patient\<close> and \<^verbatim>\<open>doctor\<close> relations are not columns: a row that was read
  with \<^verbatim>\<open>relations: ['patient']\<close> is a pair of the row and the joined patient.
\<close>

record Patient =
  p_id :: int
  p_name :: string
  p_phone :: string
  p_email :: "string option"
  p_age :: int
  p_gender :: string
  p_createdAt :: int

record Doctor =
  d_id :: int
  d_name :: string
  d_specialization :: string
  d_phone :: "string option"
  d_email :: "string option"
  d_experience :: "string option"
  d_availability :: string
  d_isActive :: bool
  d_createdAt :: int
  d_updatedAt :: int

record Queue =
  q_id :: int
  queueNumber :: int
  q_patientId :: int
  q_status :: string
  priority :: string
  q_createdAt :: int

record Appointment =
  a_id :: int
  a_doctorId :: int
  a_patientId :: int
  appointmentDateTime :: int
  a_status :: string
  a_notes :: "string option"
  a_createdAt :: int

type_synonym QueueRel = "Queue \<times> Patient option"

text \<open>
  The database: each table is the list of its rows in insertion order, with the next value
  of its auto-increment primary key.
\<close>

record db =
  patients :: "Patient list"
  doctors :: "Doctor list"
  queue :: "Queue list"
  queue_seq :: int
  appointments :: "Appointment list"
  appointment_seq :: int

datatype error = NotFoundException | BadRequestException

section \<open>Repository operations\<close>

text \<open>
  What the service uses of TypeORM's \<^verbatim>\<open>Repository\<close>: \<^verbatim>\<open>findOne\<close> with a
  \<^verbatim>\<open>where\<close> is the first matching row, \<^verbatim>\<open>count\<close> the number of matching rows,
  \<^verbatim>\<open>save\<close> of a new entity an insert that draws the primary key and takes the column
  default \<^verbatim>\<open>CURRENT_TIMESTAMP\<close> (the argument \<open>now\<close>), \<^verbatim>\<open>save\<close> of a loaded entity
  an update of the row with its primary key, \<^verbatim>\<open>remove\<close> a delete by primary key.
\<close>

definition findPatient :: "db \<Rightarrow> int \<Rightarrow> Patient option" where
  "findPatient s patientId = find (\<lambda>p. p_id p = patientId) (patients s)"

definition findWaiting :: "db \<Rightarrow> int \<Rightarrow> Queue option" where
  "findWaiting s patientId =
     find (\<lambda>q. q_patientId q = patientId \<and> q_status q = ''waiting'') (queue s)"

definition findQueueById :: "db \<Rightarrow> int \<Rightarrow> Queue option" where
  "findQueueById s queueId = find (\<lambda>q. q_id q = queueId) (queue s)"

definition withPatient :: "db \<Rightarrow> Queue \<Rightarrow> QueueRel" where
  "withPatient s q = (q, findPatient s (q_patientId q))"

definition findQueueRel :: "db \<Rightarrow> int \<Rightarrow> QueueRel option" where
  "findQueueRel s queueId = map_option (withPatient s) (findQueueById s queueId)"

definition countQueue :: "db \<Rightarrow> (Queue \<Rightarrow> bool) \<Rightarrow> int" where
  "countQueue s P = int (length (filter P (queue s)))"

definition insertQueue :: "int \<Rightarrow> db \<Rightarrow> int \<Rightarrow> int \<Rightarrow> string \<Rightarrow> string \<Rightarrow> Queue \<times> db" where
  "insertQueue now s queueNumber' patientId status' priority' =
     (let saved = \<lparr>q_id = queue_seq s, queueNumber = queueNumber', q_patientId = patientId,
                    q_status = status', priority = priority', q_createdAt = now\<rparr>
      in (saved, s\<lparr>queue := queue s @ [saved], queue_seq := queue_seq s + 1\<rparr>))"

definition updateQueue :: "db \<Rightarrow> Queue \<Rightarrow> db" where
  "updateQueue s e = s\<lparr>queue := map (\<lambda>r. if q_id r = q_id e then e else r) (queue s)\<rparr>"

definition deleteQueue :: "db \<Rightarrow> Queue \<Rightarrow> db" where
  "deleteQueue s e = s\<lparr>queue := filter (\<lambda>r. q_id r \<noteq> q_id e) (queue s)\<rparr>"

section \<open>QueueService\<close>

subsection \<open>Admission and removal\<close>

text \<open>
  \<^verbatim>\<open>addToQueue(patientId, priority = 'normal', notes?)\<close>. An operation returns its result
  or the exception it throws, together with the database it leaves.
\<close>

definition addToQueue ::
  "int \<Rightarrow> db \<Rightarrow> int \<Rightarrow> string option \<Rightarrow> string option \<Rightarrow> (error + QueueRel option) \<times> db" where
  "addToQueue now s patientId priorityArg notes =
     (let priority' = (case priorityArg of None \<Rightarrow> ''normal'' | Some p \<Rightarrow> p) in
      case findPatient s patientId of
        None \<Rightarrow> (Inl NotFoundException, s)
      | Some patient \<Rightarrow>
          (case findWaiting s patientId of
             Some existingQueue \<Rightarrow> (Inl BadRequestException, s)
           | None \<Rightarrow>
               let queueNumber' =
                     (if priority' = ''emergency'' then 0 else countQueue s (\<lambda>q. True) + 1);
                   (savedEntry, s') = insertQueue now s queueNumber' patientId ''waiting'' priority'
               in (Inr (findQueueRel s' (q_id savedEntry)), s')))"

text \<open>\<^verbatim>\<open>addEmergencyPatient(patientId)\<close>: promote the waiting entry, or insert one.\<close>

definition addEmergencyPatient :: "int \<Rightarrow> db \<Rightarrow> int \<Rightarrow> (error + QueueRel option) \<times> db" where
  "addEmergencyPatient now s patientId =
     (case findPatient s patientId of
        None \<Rightarrow> (Inl NotFoundException, s)
      | Some patient \<Rightarrow>
          (case findWaiting s patientId of
             Some existingQueue \<Rightarrow>
               let existingQueue' = existingQueue\<lparr>priority := ''emergency'', queueNumber := 0\<rparr>
               in (Inr (Some (existingQueue', None)), updateQueue s existingQueue')
           | None \<Rightarrow>
               let (savedEntry, s') = insertQueue now s 0 patientId ''waiting'' ''emergency''
               in (Inr (findQueueRel s' (q_id savedEntry)), s')))"

text \<open>\<^verbatim>\<open>removeFromQueue(queueId)\<close>: delete the row and return the copy taken before.\<close>

definition removeFromQueue :: "db \<Rightarrow> int \<Rightarrow> (error + QueueRel) \<times> db" where
  "removeFromQueue s queueId =
     (case findQueueRel s queueId of
        None \<Rightarrow> (Inl NotFoundException, s)
      | Some queueEntry \<Rightarrow> (Inr queueEntry, deleteQueue s (fst queueEntry)))"

subsection \<open>Status and priority updates\<close>

definition validStatuses :: "string list" where
  "validStatuses = [''waiting'', ''with-doctor'', ''completed'', ''cancelled'']"

definition statusMapping :: "(string \<times> string) list" where
  "statusMapping =
     [(''waiting'', ''waiting''), (''with-doctor'', ''with_doctor''),
      (''completed'', ''completed''), (''cancelled'', ''cancelled'')]"

text \<open>
  \<^verbatim>\<open>updateStatus(queueId, status)\<close>. The stored value is
  \<^verbatim>\<open>statusMapping[status] || status\<close>; the saved object still carries the patient
  relation it was loaded with.
\<close>

definition updateStatus :: "db \<Rightarrow> int \<Rightarrow> string \<Rightarrow> (error + QueueRel) \<times> db" where
  "updateStatus s queueId status =
     (if status \<notin> set validStatuses then (Inl BadRequestException, s)
      else case findQueueRel s queueId of
        None \<Rightarrow> (Inl NotFoundException, s)
      | Some (queueEntry, patient) \<Rightarrow>
          let queueEntry' = queueEntry\<lparr>q_status :=
                (case map_of statusMapping status of
                   Some mapped \<Rightarrow> if mapped = [] then status else mapped
                 | None \<Rightarrow> status)\<rparr>
          in (Inr (queueEntry', patient), updateQueue s queueEntry'))"

definition validPriorities :: "string list" where
  "validPriorities = [''normal'', ''urgent'', ''emergency'']"

text \<open>
  \<^verbatim>\<open>updatePriority(queueId, priority)\<close>. The count of urgent rows is taken from the
  table before the changed entry is saved.
\<close>

definition updatePriority :: "db \<Rightarrow> int \<Rightarrow> string \<Rightarrow> (error + QueueRel) \<times> db" where
  "updatePriority s queueId priority' =
     (if priority' \<notin> set validPriorities then (Inl BadRequestException, s)
      else case findQueueRel s queueId of
        None \<Rightarrow> (Inl NotFoundException, s)
      | Some (queueEntry, patient) \<Rightarrow>
          let queueEntry1 = queueEntry\<lparr>priority := priority'\<rparr>;
              queueEntry2 =
                (if priority' = ''emergency'' then queueEntry1\<lparr>queueNumber := 0\<rparr>
                 else if priority' = ''urgent'' \<and> queueNumber queueEntry1 = 0
                 then queueEntry1\<lparr>queueNumber :=
                        countQueue s (\<lambda>q. priority q = ''urgent'') + 1\<rparr>
                 else queueEntry1)
          in (Inr (queueEntry2, patient), updateQueue s queueEntry2))"

subsection \<open>Ordered reads\<close>

text \<open>
  \<^verbatim>\<open>order: { priority: 'DESC', queueNumber: 'ASC' }\<close> is SQL's
  \<^verbatim>\<open>ORDER BY priority DESC, queueNumber ASC\<close> on a \<^verbatim>\<open>varchar\<close> column and an
  integer column. The column \<^verbatim>\<open>priority\<close> is a string (\<^verbatim>\<open>@Column({ default: 'normal' })\<close>),
  so the database compares it as text: \<open>string_less\<close> is the order of the character
  codes, which is the order of every collation on lower-case ASCII words. Rows that agree
  on both keys come in an order the database does not fix; the model keeps them in
  insertion order.
\<close>

fun string_less :: "string \<Rightarrow> string \<Rightarrow> bool" where
  "string_less [] [] = False"
| "string_less [] (b # bs) = True"
| "string_less (a # as) [] = False"
| "string_less (a # as) (b # bs) =
     ((of_char a :: nat) < of_char b \<or> (a = b \<and> string_less as bs))"

definition precedes :: "Queue \<Rightarrow> Queue \<Rightarrow> bool" where
  "precedes a b =
     (string_less (priority b) (priority a) \<or>
      (priority a = priority b \<and> queueNumber a \<le> queueNumber b))"

fun insertOrdered :: "Queue \<Rightarrow> Queue list \<Rightarrow> Queue list" where
  "insertOrdered x [] = [x]"
| "insertOrdered x (y # ys) =
     (if precedes x y then x # y # ys else y # insertOrdered x ys)"

definition orderQueue :: "Queue list \<Rightarrow> Queue list" where
  "orderQueue rows = foldr insertOrdered rows []"

definition findByStatus :: "db \<Rightarrow> string \<Rightarrow> QueueRel list \<times> db" where
  "findByStatus s status =
     (map (withPatient s) (orderQueue (filter (\<lambda>q. q_status q = status) (queue s))), s)"

text \<open>\<^verbatim>\<open>getNextPatient()\<close>: the first row of the ordered waiting list, or null.\<close>

definition getNextPatient :: "db \<Rightarrow> QueueRel option \<times> db" where
  "getNextPatient s =
     (case fst (findByStatus s ''waiting'') of
        [] \<Rightarrow> (None, s)
      | nextPatient # rest \<Rightarrow> (Some nextPatient, s))"

subsection \<open>Rendering helpers\<close>

text \<open>Template literals print a number in decimal.\<close>

fun showNat :: "nat \<Rightarrow> string" where
  "showNat n =
     (if n < 10 then [''0123456789'' ! n]
      else showNat (n div 10) @ [''0123456789'' ! (n mod 10)])"

declare showNat.simps [simp del]

definition showInt :: "int \<Rightarrow> string" where
  "showInt i = (if i < 0 then ''-'' @ showNat (nat (- i)) else showNat (nat i))"

text \<open>
  \<^verbatim>\<open>calculateWaitTime(position)\<close>. \<^verbatim>\<open>Math.floor(minutes / 60)\<close> is \<open>div\<close> and
  JavaScript's \<^verbatim>\<open>%\<close> is the remainder of the truncating division, \<open>smod\<close>.
\<close>

definition calculateWaitTime :: "int \<Rightarrow> string" where
  "calculateWaitTime position' =
     (let minutes = position' * 15;
          hours = minutes div 60;
          remainingMinutes = minutes smod 60
      in if hours > 0 then showInt hours @ ''h '' @ showInt remainingMinutes @ ''m''
         else showInt remainingMinutes @ ''m'')"

definition calculateAverageWaitTime :: "int \<Rightarrow> string" where
  "calculateAverageWaitTime waitingCount =
     (let avgMinutes = waitingCount * 15;
          hours = avgMinutes div 60;
          minutes = avgMinutes smod 60
      in if hours > 0 then showInt hours @ ''h '' @ showInt minutes @ ''m''
         else showInt minutes @ ''m'')"

definition getStatusColor :: "string \<Rightarrow> string" where
  "getStatusColor status =
     (case map_of [(''waiting'', ''#fbbf24''), (''with_doctor'', ''#3b82f6''),
                   (''with-doctor'', ''#3b82f6''), (''completed'', ''#10b981''),
                   (''cancelled'', ''#ef4444'')] status of
        Some colour \<Rightarrow> colour
      | None \<Rightarrow> ''#6b7280'')"

definition calculateTimeInQueue :: "int \<Rightarrow> int \<Rightarrow> string" where
  "calculateTimeInQueue now createdAt =
     (let diffMs = now - createdAt;
          diffMinutes = diffMs div (1000 * 60);
          hours = diffMinutes div 60;
          minutes = diffMinutes smod 60
      in if hours > 0 then showInt hours @ ''h '' @ showInt minutes @ ''m ago''
         else showInt minutes @ ''m ago'')"

subsection \<open>Enhanced queue\<close>

text \<open>
  \<^verbatim>\<open>getEnhancedQueue()\<close>: the ordered waiting rows, each spread into an object with the
  computed fields. The field \<^verbatim>\<open>priorityBadge\<close> is a display label with a pictograph
  outside ASCII and is left out.
\<close>

record EnhancedEntry =
  entry :: QueueRel
  position :: int
  estimatedWaitTime :: string
  statusColor :: string
  isUrgent :: bool
  timeInQueue :: string

definition enhance :: "int \<Rightarrow> nat \<times> QueueRel \<Rightarrow> EnhancedEntry" where
  "enhance now ie =
     (let index = int (fst ie); e = snd ie in
      \<lparr>entry = e,
       position = index + 1,
       estimatedWaitTime = calculateWaitTime index,
       statusColor = getStatusColor (q_status (fst e)),
       isUrgent = (priority (fst e) = ''urgent'' \<or> priority (fst e) = ''emergency''),
       timeInQueue = calculateTimeInQueue now (q_createdAt (fst e))\<rparr>)"

definition getEnhancedQueue :: "int \<Rightarrow> db \<Rightarrow> EnhancedEntry list \<times> db" where
  "getEnhancedQueue now s =
     (map (enhance now) (enumerate 0 (fst (findByStatus s ''waiting''))), s)"

subsection \<open>Statistics\<close>

text \<open>
  JavaScript numbers are IEEE 754 doubles. \<open>toDouble\<close> rounds a rational to the nearest
  double, ties to even, for magnitudes in the normal range (the quotient of two row counts
  and its product with 100 are there, or zero): the value is scaled into
  \<open>[2^52, 2^53)\<close>, rounded to an integer and scaled back. \<^verbatim>\<open>Math.round\<close> rounds
  halves upwards.
\<close>

definition roundHalfEven :: "rat \<Rightarrow> int" where
  "roundHalfEven x =
     (let f = \<lfloor>x\<rfloor>; d = x - of_int f
      in if d < 1 / 2 then f else if 1 / 2 < d then f + 1 else if even f then f else f + 1)"

fun significand :: "nat \<Rightarrow> rat \<Rightarrow> int \<Rightarrow> rat \<times> int" where
  "significand 0 x e = (x, e)"
| "significand (Suc fuel) x e =
     (if x < 2 ^ 52 then significand fuel (x * 2) (e - 1)
      else if 2 ^ 53 \<le> x then significand fuel (x / 2) (e + 1)
      else (x, e))"

definition roundPos :: "rat \<Rightarrow> rat" where
  "roundPos x =
     (let me = significand 2100 x 0; n = of_int (roundHalfEven (fst me))
      in if 0 \<le> snd me then n * 2 ^ nat (snd me) else n / 2 ^ nat (- snd me))"

definition toDouble :: "rat \<Rightarrow> rat" where
  "toDouble x = (if x = 0 then 0 else if 0 < x then roundPos x else - roundPos (- x))"

definition Math_round :: "rat \<Rightarrow> int" where
  "Math_round x = \<lfloor>x + 1 / 2\<rfloor>"

record QueueStats =
  total :: int
  waiting :: int
  withDoctor :: int
  completed :: int
  urgent :: int
  emergency :: int
  averageWaitTime :: string
  efficiency :: int

definition getQueueStats :: "db \<Rightarrow> QueueStats \<times> db" where
  "getQueueStats s =
     (let total' = countQueue s (\<lambda>q. True);
          waiting' = countQueue s (\<lambda>q. q_status q = ''waiting'');
          withDoctor' = countQueue s (\<lambda>q. q_status q = ''with_doctor'');
          completed' = countQueue s (\<lambda>q. q_status q = ''completed'');
          urgent' = countQueue s (\<lambda>q. priority q = ''urgent'' \<and> q_status q = ''waiting'');
          emergency' = countQueue s (\<lambda>q. priority q = ''emergency'' \<and> q_status q = ''waiting'')
      in (\<lparr>total = total', waiting = waiting', withDoctor = withDoctor',
           completed = completed', urgent = urgent', emergency = emergency',
           averageWaitTime = calculateAverageWaitTime waiting',
           efficiency =
             Math_round (toDouble (toDouble (of_int completed' / of_int (max total' 1)) * 100))\<rparr>,
          s))"

section \<open>QueueController\<close>

text \<open>
  \<^verbatim>\<open>PUT /queue/:id/status\<close>. The handler checks the body, calls the service and turns
  every exception it catches, its own included, into an \<^verbatim>\<open>HttpException\<close> with status
  \<^verbatim>\<open>BAD_REQUEST\<close>. Of the response object the model keeps \<^verbatim>\<open>queueEntry\<close>.
\<close>

datatype HttpStatus = BAD_REQUEST | NOT_FOUND

datatype http_error = HttpException HttpStatus

definition QueueController_updateStatus ::
  "db \<Rightarrow> int \<Rightarrow> string option \<Rightarrow> (http_error + QueueRel) \<times> db" where
  "QueueController_updateStatus s queueId statusField =
     (case statusField of
        None \<Rightarrow> (Inl (HttpException BAD_REQUEST), s)
      | Some status \<Rightarrow>
          if status = [] then (Inl (HttpException BAD_REQUEST), s)
          else if status \<notin> set [''waiting'', ''with-doctor'', ''completed'', ''cancelled'']
          then (Inl (HttpException BAD_REQUEST), s)
          else (case updateStatus s queueId status of
                  (Inl e, s') \<Rightarrow> (Inl (HttpException BAD_REQUEST), s')
                | (Inr result, s') \<Rightarrow> (Inr result, s')))"

section \<open>Appointments\<close>

text \<open>
  The body of \<^verbatim>\<open>POST /appointments\<close>. The handler's \<^verbatim>\<open>ValidationPipe({ transform: true })\<close>
  makes an instance of \<^verbatim>\<open>CreateAppointmentDto\<close> from it: the class initialises
  \<^verbatim>\<open>status = 'booked'\<close>, and a key that the body has overwrites the initial value.
  An optional field is \<open>None\<close> when the key is absent.
\<close>

record CreateAppointmentDto =
  dto_doctorId :: int
  dto_patientId :: int
  dto_appointmentDateTime :: string
  dto_notes :: "string option"
  dto_status :: "string option"

definition toCreateAppointmentDto :: "CreateAppointmentDto \<Rightarrow> CreateAppointmentDto" where
  "toCreateAppointmentDto body =
     body\<lparr>dto_status := (case dto_status body of None \<Rightarrow> Some ''booked'' | Some v \<Rightarrow> Some v)\<rparr>"

definition findDoctor :: "db \<Rightarrow> int \<Rightarrow> Doctor option" where
  "findDoctor s doctorId = find (\<lambda>d. d_id d = doctorId) (doctors s)"

definition findScheduled :: "db \<Rightarrow> int \<Rightarrow> int \<Rightarrow> Appointment option" where
  "findScheduled s doctorId appointmentDate =
     find (\<lambda>a. a_doctorId a = doctorId \<and> appointmentDateTime a = appointmentDate \<and>
                a_status a = ''scheduled'') (appointments s)"

definition insertAppointment ::
  "int \<Rightarrow> db \<Rightarrow> int \<Rightarrow> int \<Rightarrow> int \<Rightarrow> string option \<Rightarrow> string \<Rightarrow> Appointment \<times> db" where
  "insertAppointment now s doctorId patientId appointmentDate notes status =
     (let saved = \<lparr>a_id = appointment_seq s, a_doctorId = doctorId, a_patientId = patientId,
                    appointmentDateTime = appointmentDate, a_status = status, a_notes = notes,
                    a_createdAt = now\<rparr>
      in (saved, s\<lparr>appointments := appointments s @ [saved],
                   appointment_seq := appointment_seq s + 1\<rparr>))"

text \<open>
  \<^verbatim>\<open>AppointmentService.create(appointmentData)\<close>. \<open>parseDate\<close> stands for
  \<^verbatim>\<open>new Date(appointmentDateTime)\<close>: the time value in milliseconds, \<open>None\<close> for an
  invalid date. \<^verbatim>\<open>status || 'scheduled'\<close> takes the default for an absent and for an
  empty status.
\<close>

definition create ::
  "(string \<Rightarrow> int option) \<Rightarrow> int \<Rightarrow> db \<Rightarrow> CreateAppointmentDto \<Rightarrow> (error + Appointment) \<times> db" where
  "create parseDate now s appointmentData =
     (let doctorId = dto_doctorId appointmentData;
          patientId = dto_patientId appointmentData
      in if doctorId = 0 \<or> doctorId \<le> 0 then (Inl BadRequestException, s)
         else (case findDoctor s doctorId of
           None \<Rightarrow> (Inl NotFoundException, s)
         | Some doctor \<Rightarrow>
             if \<not> d_isActive doctor then (Inl BadRequestException, s)
             else (case findPatient s patientId of
               None \<Rightarrow> (Inl NotFoundException, s)
             | Some patient \<Rightarrow>
                 (case parseDate (dto_appointmentDateTime appointmentData) of
                    None \<Rightarrow> (Inl BadRequestException, s)
                  | Some appointmentDate \<Rightarrow>
                      (case findScheduled s doctorId appointmentDate of
                         Some existingAppointment \<Rightarrow> (Inl BadRequestException, s)
                       | None \<Rightarrow>
                           (let status =
                                 (case dto_status appointmentData of
                                    None \<Rightarrow> ''scheduled''
                                  | Some v \<Rightarrow> if v = [] then ''scheduled'' else v);
                               (saved, s') =
                                 insertAppointment now s doctorId patientId appointmentDate
                                   (dto_notes appointmentData) status
                           in (Inr saved, s')))))))"

text \<open>
  \<^verbatim>\<open>AppointmentController.create\<close>: the pipe, the handler's own checks, the service.
  The service's exceptions are \<^verbatim>\<open>HttpException\<close>s and are thrown on as they are.
\<close>

definition httpStatusOf :: "error \<Rightarrow> HttpStatus" where
  "httpStatusOf e = (case e of NotFoundException \<Rightarrow> NOT_FOUND | BadRequestException \<Rightarrow> BAD_REQUEST)"

definition AppointmentController_create ::
  "(string \<Rightarrow> int option) \<Rightarrow> int \<Rightarrow> db \<Rightarrow> CreateAppointmentDto \<Rightarrow> (http_error + Appointment) \<times> db" where
  "AppointmentController_create parseDate now s body =
     (let createAppointmentDto = toCreateAppointmentDto body
      in if dto_doctorId createAppointmentDto = 0 then (Inl (HttpException BAD_REQUEST), s)
         else if dto_patientId createAppointmentDto = 0 then (Inl (HttpException BAD_REQUEST), s)
         else if dto_appointmentDateTime createAppointmentDto = []
         then (Inl (HttpException BAD_REQUEST), s)
         else (case create parseDate now s createAppointmentDto of
                 (Inl e, s') \<Rightarrow> (Inl (HttpException (httpStatusOf e)), s')
               | (Inr result, s') \<Rightarrow> (Inr result, s')))"

section \<open>Invariants, operation sequences and example states\<close>

text \<open>
  The primary key of the queue table: no two rows share an id, and every id was drawn from
  the sequence.
\<close>

definition wellFormed :: "db \<Rightarrow> bool" where
  "wellFormed s =
     (distinct (map q_id (queue s)) \<and> list_all (\<lambda>q. q_id q < queue_seq s) (queue s))"

definition waitingOf :: "db \<Rightarrow> int \<Rightarrow> Queue list" where
  "waitingOf s patientId =
     filter (\<lambda>q. q_patientId q = patientId \<and> q_status q = ''waiting'') (queue s)"

definition singleWaiting :: "db \<Rightarrow> bool" where
  "singleWaiting s = list_all (\<lambda>q. length (waitingOf s (q_patientId q)) \<le> 1) (queue s)"

datatype queue_op =
  Admit int int "string option" "string option"
| AdmitEmergency int int
| Remove int

fun applyOp :: "queue_op \<Rightarrow> db \<Rightarrow> db" where
  "applyOp (Admit now patientId priorityArg notes) s =
     snd (addToQueue now s patientId priorityArg notes)"
| "applyOp (AdmitEmergency now patientId) s = snd (addEmergencyPatient now s patientId)"
| "applyOp (Remove queueId) s = snd (removeFromQueue s queueId)"

fun runOps :: "queue_op list \<Rightarrow> db \<Rightarrow> db" where
  "runOps [] s = s"
| "runOps (op # ops) s = runOps ops (applyOp op s)"

text \<open>The counts that the specification names, written after its words.\<close>

definition otherUrgentWaiting :: "db \<Rightarrow> int \<Rightarrow> int" where
  "otherUrgentWaiting s queueId =
     countQueue s (\<lambda>q. q_id q \<noteq> queueId \<and> priority q = ''urgent'' \<and> q_status q = ''waiting'')"

definition completedOverCompletedAndWaiting :: "db \<Rightarrow> int" where
  "completedOverCompletedAndWaiting s =
     (let completed' = countQueue s (\<lambda>q. q_status q = ''completed'');
          waiting' = countQueue s (\<lambda>q. q_status q = ''waiting'')
      in Math_round (toDouble (toDouble (of_int completed' / of_int (completed' + waiting')) * 100)))"

text \<open>Reading a decimal numeral back, to say what a rendered number denotes.\<close>

definition readNat :: "string \<Rightarrow> nat" where
  "readNat str = foldl (\<lambda>acc c. 10 * acc + (of_char c - 48)) 0 str"

text \<open>Example states: three patients and a doctor, and queues built by the operations.\<close>

definition examplePatient :: "int \<Rightarrow> Patient" where
  "examplePatient i =
     \<lparr>p_id = i, p_name = ''Patient'', p_phone = ''555'', p_email = None, p_age = 40,
      p_gender = ''female'', p_createdAt = 0\<rparr>"

definition exampleDoctor :: Doctor where
  "exampleDoctor =
     \<lparr>d_id = 4, d_name = ''Doctor'', d_specialization = ''General'', d_phone = None,
      d_email = None, d_experience = None, d_availability = ''Available'', d_isActive = True,
      d_createdAt = 0, d_updatedAt = 0\<rparr>"

definition exampleDb :: db where
  "exampleDb =
     \<lparr>patients = [examplePatient 1, examplePatient 2, examplePatient 3],
      doctors = [exampleDoctor], queue = [], queue_seq = 1, appointments = [],
      appointment_seq = 1\<rparr>"

definition oneWaiting :: db where
  "oneWaiting = runOps [Admit 100 1 None None] exampleDb"

definition normalThenEmergency :: db where
  "normalThenEmergency = runOps [Admit 100 1 None None, AdmitEmergency 200 2] exampleDb"

definition completedUrgentAndEmergency :: db where
  "completedUrgentAndEmergency =
     (let s1 = snd (addToQueue 100 exampleDb 1 (Some ''urgent'') None);
          s2 = snd (updateStatus s1 1 ''completed'')
      in snd (addEmergencyPatient 300 s2 2))"

definition completedAndWithDoctor :: db where
  "completedAndWithDoctor =
     (let s1 = snd (addToQueue 100 exampleDb 1 None None);
          s2 = snd (addToQueue 200 s1 2 None None);
          s3 = snd (updateStatus s2 1 ''completed'')
      in snd (updateStatus s3 2 ''with-doctor''))"

definition oneCompleted :: db where
  "oneCompleted = snd (updateStatus oneWaiting 1 ''completed'')"


definition exampleParseDate :: "string \<Rightarrow> int option" where
  "exampleParseDate str = (if str = ''2024-05-01T10:00:00Z'' then Some 1714557600000 else None)"

definition exampleBody :: "int \<Rightarrow> CreateAppointmentDto" where
  "exampleBody patientId =
     \<lparr>dto_doctorId = 4, dto_patientId = patientId,
      dto_appointmentDateTime = ''2024-05-01T10:00:00Z'', dto_notes = None, dto_status = None\<rparr>"

text \<open>
  What every reachable queue table satisfies: the primary key is sound and no patient has two
  waiting entries.
\<close>

definition queueInvariant :: "db \<Rightarrow> bool" where
  "queueInvariant s = (wellFormed s \<and> (\<forall>p. length (waitingOf s p) \<le> 1))"

text \<open>The entry after \<^verbatim>\<open>addEmergencyPatient\<close> has assigned its two fields.\<close>

abbreviation promoted :: "Queue \<Rightarrow> Queue" where
  "promoted e \<equiv> e\<lparr>priority := ''emergency'', queueNumber := 0\<rparr>"

section \<open>Auxiliary facts\<close>

lemma find_None_filter: "find P xs = None \<Longrightarrow> filter P xs = []"
  by (induction xs) (auto split: if_splits)

lemma find_Some_mem: "find P xs = Some x \<Longrightarrow> x \<in> set xs \<and> P x"
  by (induction xs) (auto split: if_splits)

lemma distinct_ids_eq:
  "distinct (map q_id rows) \<Longrightarrow> r \<in> set rows \<Longrightarrow> e \<in> set rows \<Longrightarrow> q_id r = q_id e \<Longrightarrow> r = e"
  by (meson distinct_map inj_on_def)

lemma singleWaiting_iff: "singleWaiting s \<longleftrightarrow> (\<forall>p. length (waitingOf s p) \<le> 1)"
proof
  assume sw: "singleWaiting s"
  show "\<forall>p. length (waitingOf s p) \<le> 1"
  proof
    fix p
    show "length (waitingOf s p) \<le> 1"
    proof (cases "waitingOf s p")
      case Nil
      then show ?thesis by simp
    next
      case (Cons q qs)
      then have "q \<in> set (waitingOf s p)" by simp
      then have "q \<in> set (queue s)" and "q_patientId q = p"
        by (auto simp: waitingOf_def)
      with sw show ?thesis by (auto simp: singleWaiting_def list_all_iff)
    qed
  qed
next
  assume "\<forall>p. length (waitingOf s p) \<le> 1"
  then show "singleWaiting s" by (simp add: singleWaiting_def list_all_iff)
qed

lemma wellFormed_insertQueue:
  "wellFormed s \<Longrightarrow> wellFormed (snd (insertQueue now s n p st pr))"
  by (auto simp: wellFormed_def insertQueue_def Let_def list_all_iff)

lemma map_id_update:
  "q_id \<circ> (\<lambda>r. if q_id r = q_id e then e else r) = q_id"
  by (auto simp: fun_eq_iff)

lemma wellFormed_updateQueue:
  "wellFormed s \<Longrightarrow> wellFormed (updateQueue s e)"
  by (auto simp: wellFormed_def updateQueue_def map_id_update list_all_iff)

lemma wellFormed_deleteQueue:
  "wellFormed s \<Longrightarrow> wellFormed (deleteQueue s e)"
  by (auto simp: wellFormed_def deleteQueue_def list_all_iff distinct_map_filter)

lemma waitingOf_insertQueue:
  "waitingOf (snd (insertQueue now s n p ''waiting'' pr)) p' =
     waitingOf s p' @ (if p' = p then [fst (insertQueue now s n p ''waiting'' pr)] else [])"
  by (auto simp: waitingOf_def insertQueue_def Let_def)

lemma waitingOf_updateQueue:
  assumes "distinct (map q_id (queue s))" and "e \<in> set (queue s)"
    and "q_id e' = q_id e" and "q_patientId e' = q_patientId e" and "q_status e' = q_status e"
  shows "waitingOf (updateQueue s e') p =
           map (\<lambda>r. if q_id r = q_id e' then e' else r) (waitingOf s p)"
proof -
  let ?f = "\<lambda>r. if q_id r = q_id e' then e' else r"
  let ?P = "\<lambda>q. q_patientId q = p \<and> q_status q = ''waiting''"
  have "filter (?P \<circ> ?f) (queue s) = filter ?P (queue s)"
  proof (rule filter_cong[OF refl])
    fix r assume r: "r \<in> set (queue s)"
    show "(?P \<circ> ?f) r = ?P r"
    proof (cases "q_id r = q_id e'")
      case True
      with assms r have "r = e" using distinct_ids_eq by metis
      with True assms show ?thesis by simp
    next
      case False
      then show ?thesis by simp
    qed
  qed
  then show ?thesis
    by (simp add: waitingOf_def updateQueue_def filter_map)
qed

lemma waitingOf_deleteQueue:
  "length (waitingOf (deleteQueue s e) p) \<le> length (waitingOf s p)"
proof -
  have "waitingOf (deleteQueue s e) p = filter (\<lambda>r. q_id r \<noteq> q_id e) (waitingOf s p)"
    by (auto simp: waitingOf_def deleteQueue_def intro: filter_cong)
  then show ?thesis by simp
qed

lemma findWaiting_None: "findWaiting s p = None \<Longrightarrow> waitingOf s p = []"
  by (simp add: findWaiting_def waitingOf_def find_None_filter)

lemma findWaiting_Some: "findWaiting s p = Some e \<Longrightarrow> e \<in> set (queue s) \<and> q_patientId e = p \<and> q_status e = ''waiting''"
  by (auto simp: findWaiting_def dest: find_Some_mem)


lemma queueInvariant_addToQueue:
  assumes "queueInvariant s"
  shows "queueInvariant (snd (addToQueue now s patientId priorityArg notes))"
proof (cases "findPatient s patientId")
  case None
  with assms show ?thesis by (simp add: addToQueue_def)
next
  case (Some patient)
  show ?thesis
  proof (cases "findWaiting s patientId")
    case (Some e)
    with \<open>findPatient s patientId = Some patient\<close> assms show ?thesis
      by (simp add: addToQueue_def)
  next
    case None
    let ?pr = "case priorityArg of None \<Rightarrow> ''normal'' | Some p \<Rightarrow> p"
    let ?n = "if ?pr = ''emergency'' then 0 else countQueue s (\<lambda>q. True) + 1"
    have eq: "snd (addToQueue now s patientId priorityArg notes) =
                snd (insertQueue now s ?n patientId ''waiting'' ?pr)"
      using None \<open>findPatient s patientId = Some patient\<close>
      by (simp add: addToQueue_def Let_def split: prod.splits)
    have "waitingOf s patientId = []" using None by (rule findWaiting_None)
    with assms show ?thesis
      unfolding eq queueInvariant_def by (auto simp: wellFormed_insertQueue waitingOf_insertQueue)
  qed
qed


lemma queueInvariant_addEmergencyPatient:
  assumes "queueInvariant s"
  shows "queueInvariant (snd (addEmergencyPatient now s patientId))"
proof (cases "findPatient s patientId")
  case None
  with assms show ?thesis by (simp add: addEmergencyPatient_def)
next
  case (Some patient)
  show ?thesis
  proof (cases "findWaiting s patientId")
    case (Some e)
    let ?e' = "e\<lparr>priority := ''emergency'', queueNumber := 0\<rparr>"
    have eq: "snd (addEmergencyPatient now s patientId) = updateQueue s ?e'"
      using Some \<open>findPatient s patientId = Some patient\<close>
      by (simp add: addEmergencyPatient_def Let_def)
    have mem: "e \<in> set (queue s)" using Some by (simp add: findWaiting_Some)
    have "waitingOf (updateQueue s ?e') p =
            map (\<lambda>r. if q_id r = q_id ?e' then ?e' else r) (waitingOf s p)" for p
      using assms mem by (intro waitingOf_updateQueue) (auto simp: queueInvariant_def wellFormed_def)
    with assms show ?thesis
      unfolding eq queueInvariant_def by (simp add: wellFormed_updateQueue)
  next
    case None
    have eq: "snd (addEmergencyPatient now s patientId) =
                snd (insertQueue now s 0 patientId ''waiting'' ''emergency'')"
      using None \<open>findPatient s patientId = Some patient\<close>
      by (simp add: addEmergencyPatient_def Let_def split: prod.splits)
    have "waitingOf s patientId = []" using None by (rule findWaiting_None)
    with assms show ?thesis
      unfolding eq queueInvariant_def by (auto simp: wellFormed_insertQueue waitingOf_insertQueue)
  qed
qed

lemma queueInvariant_removeFromQueue:
  assumes "queueInvariant s"
  shows "queueInvariant (snd (removeFromQueue s queueId))"
proof (cases "findQueueRel s queueId")
  case None
  with assms show ?thesis by (simp add: removeFromQueue_def)
next
  case (Some qe)
  have "length (waitingOf (deleteQueue s (fst qe)) p) \<le> 1" for p
    using assms waitingOf_deleteQueue[of s "fst qe" p] by (auto simp: queueInvariant_def intro: order_trans)
  with assms Some show ?thesis
    by (simp add: removeFromQueue_def queueInvariant_def wellFormed_deleteQueue)
qed

lemma queueInvariant_applyOp: "queueInvariant s \<Longrightarrow> queueInvariant (applyOp op s)"
  by (cases op) (simp_all add: queueInvariant_addToQueue queueInvariant_addEmergencyPatient queueInvariant_removeFromQueue)

lemma queueInvariant_runOps: "queueInvariant s \<Longrightarrow> queueInvariant (runOps ops s)"
  by (induction ops arbitrary: s) (simp_all add: queueInvariant_applyOp)

lemma find_filter_hd: "find P xs = (case filter P xs of [] \<Rightarrow> None | x # _ \<Rightarrow> Some x)"
  by (induction xs) auto

lemma findWaiting_waitingOf:
  "findWaiting s p = (case waitingOf s p of [] \<Rightarrow> None | x # _ \<Rightarrow> Some x)"
  by (simp add: findWaiting_def waitingOf_def find_filter_hd)

lemma find_snoc_fresh:
  "\<forall>x\<in>set xs. \<not> P x \<Longrightarrow> find P (xs @ [y]) = (if P y then Some y else None)"
  by (induction xs) auto

lemma find_snoc_not: "\<not> P y \<Longrightarrow> find P (xs @ [y]) = find P xs"
  by (induction xs) auto

lemma findPatient_updateQueue [simp]: "findPatient (updateQueue s e) p = findPatient s p"
  by (simp add: findPatient_def updateQueue_def)

lemma updateQueue_idem: "updateQueue (updateQueue s e) e = updateQueue s e"
  by (simp add: updateQueue_def)



lemma findQueueRel_insertQueue:
  assumes "wellFormed s"
  shows "findQueueRel (snd (insertQueue now s n p st pr)) (queue_seq s) =
           Some (fst (insertQueue now s n p st pr), findPatient s p)"
proof -
  have "\<forall>x\<in>set (queue s). \<not> q_id x = queue_seq s"
    using assms by (auto simp: wellFormed_def list_all_iff)
  then show ?thesis
    by (simp add: findQueueRel_def findQueueById_def insertQueue_def Let_def find_snoc_fresh
        withPatient_def findPatient_def)
qed


subsection \<open>Updates by primary key\<close>

lemma find_map_same:
  "(\<And>x. x \<in> set xs \<Longrightarrow> P (f x) = P x) \<Longrightarrow> find P (map f xs) = map_option f (find P xs)"
  by (induction xs) auto

lemma findQueueById_updateQueue:
  assumes "findQueueById s queueId = Some e" and "q_id e' = q_id e"
  shows "findQueueById (updateQueue s e') queueId = Some e'"
proof -
  from assms(1) have ide: "q_id e = queueId"
    by (auto simp: findQueueById_def dest: find_Some_mem)
  have "find (\<lambda>q. q_id q = queueId) (map (\<lambda>r. if q_id r = q_id e' then e' else r) (queue s)) =
          map_option (\<lambda>r. if q_id r = q_id e' then e' else r) (find (\<lambda>q. q_id q = queueId) (queue s))"
    by (rule find_map_same) auto
  with assms ide show ?thesis
    by (simp add: findQueueById_def updateQueue_def)
qed


subsection \<open>The order of the reads\<close>

lemma string_less_irrefl: "\<not> string_less a a"
  by (induction a) auto

lemma string_less_trans: "string_less a b \<Longrightarrow> string_less b c \<Longrightarrow> string_less a c"
proof (induction a b arbitrary: c rule: string_less.induct)
  case 1
  then show ?case by simp
next
  case (2 b bs)
  then show ?case by (cases c) simp_all
next
  case (3 a as)
  then show ?case by simp
next
  case (4 a as b bs)
  then show ?case by (cases c) auto
qed

lemma of_char_less_total:
  "(of_char a :: nat) < of_char b \<or> (of_char b :: nat) < of_char a \<or> a = b"
proof -
  have "(of_char a :: nat) = of_char b \<Longrightarrow> a = b"
    by (simp add: of_char_eq_iff)
  then show ?thesis by (meson linorder_less_linear)
qed

lemma string_less_total: "a = b \<or> string_less a b \<or> string_less b a"
proof (induction a b rule: string_less.induct)
  case (4 a as b bs)
  with of_char_less_total[of a b] show ?case by auto
qed simp_all

lemma precedes_total: "precedes a b \<or> precedes b a"
  using string_less_total[of "priority a" "priority b"] by (auto simp: precedes_def)

lemma precedes_trans:
  assumes "precedes a b" and "precedes b c"
  shows "precedes a c"
proof -
  from assms(1) consider
      (lt1) "string_less (priority b) (priority a)"
    | (eq1) "priority a = priority b" "queueNumber a \<le> queueNumber b"
    by (auto simp: precedes_def)
  then show ?thesis
  proof cases
    case lt1
    from assms(2) have "string_less (priority c) (priority b) \<or> priority b = priority c"
      by (auto simp: precedes_def)
    with lt1 have "string_less (priority c) (priority a)"
      using string_less_trans by auto
    then show ?thesis by (simp add: precedes_def)
  next
    case eq1
    with assms(2) show ?thesis by (auto simp: precedes_def)
  qed
qed

lemma set_insertOrdered: "set (insertOrdered x ys) = insert x (set ys)"
  by (induction ys) auto

lemma sorted_insertOrdered:
  "sorted_wrt precedes ys \<Longrightarrow> sorted_wrt precedes (insertOrdered x ys)"
proof (induction ys)
  case Nil
  then show ?case by simp
next
  case (Cons y ys)
  show ?case
  proof (cases "precedes x y")
    case True
    with Cons.prems show ?thesis by (auto intro: precedes_trans)
  next
    case False
    then have "precedes y x" using precedes_total by blast
    with False Cons show ?thesis by (auto simp: set_insertOrdered)
  qed
qed

lemma sorted_orderQueue: "sorted_wrt precedes (orderQueue rows)"
  unfolding orderQueue_def by (induction rows) (simp_all add: sorted_insertOrdered)

lemma set_orderQueue: "set (orderQueue rows) = set rows"
  unfolding orderQueue_def by (induction rows) (simp_all add: set_insertOrdered)

lemma length_insertOrdered: "length (insertOrdered x ys) = Suc (length ys)"
  by (induction ys) auto

lemma length_orderQueue: "length (orderQueue rows) = length rows"
  unfolding orderQueue_def by (induction rows) (simp_all add: length_insertOrdered)


text \<open>
  What holds of the next patient: there is none exactly when nobody waits, and the one
  returned comes before every waiting entry in the order of the query; among equal
  priorities that order is the order of the queue numbers.
\<close>

lemma precedes_equal_priority:
  "priority a = priority b \<Longrightarrow> precedes a b \<longleftrightarrow> queueNumber a \<le> queueNumber b"
  by (simp add: precedes_def string_less_irrefl)

lemma orderQueue_Nil_iff: "orderQueue rows = [] \<longleftrightarrow> rows = []"
  using length_orderQueue[of rows] by (metis length_0_conv)

lemma getNextPatient_none:
  "fst (getNextPatient s) = None \<longleftrightarrow> filter (\<lambda>q. q_status q = ''waiting'') (queue s) = []"
proof -
  have "fst (getNextPatient s) = None \<longleftrightarrow>
          orderQueue (filter (\<lambda>q. q_status q = ''waiting'') (queue s)) = []"
    by (cases "orderQueue (filter (\<lambda>q. q_status q = ''waiting'') (queue s))")
      (simp_all add: getNextPatient_def findByStatus_def)
  then show ?thesis by (simp add: orderQueue_Nil_iff)
qed

lemma getNextPatient_first:
  assumes "fst (getNextPatient s) = Some (q, p)"
  shows "q \<in> set (queue s) \<and> q_status q = ''waiting'' \<and>
         (\<forall>r\<in>set (queue s). q_status r = ''waiting'' \<longrightarrow> precedes q r)"
proof -
  let ?w = "filter (\<lambda>q. q_status q = ''waiting'') (queue s)"
  from assms obtain rest where o: "orderQueue ?w = q # rest"
    by (auto simp: getNextPatient_def findByStatus_def withPatient_def split: list.splits)
  have s: "set ?w = insert q (set rest)"
    using set_orderQueue[of ?w] o by simp
  have "sorted_wrt precedes (q # rest)"
    using sorted_orderQueue[of ?w] o by simp
  then have "\<forall>r\<in>set rest. precedes q r" by simp
  moreover have "precedes q q" by (simp add: precedes_def)
  ultimately have "\<forall>r\<in>set ?w. precedes q r" using s by auto
  moreover have "q \<in> set ?w" using s by simp
  ultimately show ?thesis by auto
qed

subsection \<open>Rendering\<close>


lemma digit_value: "n < 10 \<Longrightarrow> (of_char (''0123456789'' ! n) :: nat) = 48 + n"
proof -
  assume "n < 10"
  then have "n \<in> {0, 1, 2, 3, 4, 5, 6, 7, 8, 9}" by auto
  then show ?thesis by auto
qed

lemma readNat_showNat_aux:
  "foldl (\<lambda>acc c. 10 * acc + (of_char c - 48)) a (showNat n) =
     (if n < 10 then 10 * a + n
      else foldl (\<lambda>acc c. 10 * acc + (of_char c - 48)) a (showNat (n div 10)) * 10 + n mod 10)"
  by (subst showNat.simps) (simp add: digit_value)

lemma readNat_showNat: "readNat (showNat n) = n"
proof (induction n rule: showNat.induct)
  case (1 n)
  show ?case
  proof (cases "n < 10")
    case True
    then show ?thesis
      unfolding readNat_def by (subst readNat_showNat_aux) simp
  next
    case False
    with 1 have "readNat (showNat (n div 10)) = n div 10" by simp
    with False show ?thesis
      unfolding readNat_def by (subst readNat_showNat_aux) simp
  qed
qed


subsection \<open>Doubles at the values the statistics meet\<close>

lemma toDouble_0: "toDouble 0 = 0"
  by (simp add: toDouble_def)

lemma toDouble_1: "toDouble 1 = 1"
  by code_simp

lemma toDouble_100: "toDouble 100 = 100"
  by code_simp

lemma Math_round_0: "Math_round 0 = 0"
  by code_simp

lemma Math_round_100: "Math_round 100 = 100"
  by code_simp


subsection \<open>Appointments\<close>

lemma findScheduled_insertAppointment:
  "status \<noteq> ''scheduled'' \<Longrightarrow>
   findScheduled (snd (insertAppointment now s doctorId patientId t notes status)) doctorId' t' =
     findScheduled s doctorId' t'"
  by (simp add: findScheduled_def insertAppointment_def Let_def find_snoc_not)

lemma create_booked:
  assumes "0 < doctorId" and "findDoctor s doctorId = Some doctor" and "d_isActive doctor"
    and "findPatient s patientId = Some patient"
    and "parseDate dateTime = Some t"
    and "findScheduled s doctorId t = None"
  shows "create parseDate now s
           \<lparr>dto_doctorId = doctorId, dto_patientId = patientId,
            dto_appointmentDateTime = dateTime, dto_notes = memo, dto_status = Some ''booked''\<rparr> =
         (Inr (fst (insertAppointment now s doctorId patientId t memo ''booked'')),
          snd (insertAppointment now s doctorId patientId t memo ''booked''))"
  using assms by (simp add: create_def Let_def split: prod.splits)

lemma controller_create_default:
  assumes "0 < doctorId" and "findDoctor s doctorId = Some doctor" and "d_isActive doctor"
    and "patientId \<noteq> 0" and "findPatient s patientId = Some patient"
    and "dateTime \<noteq> []" and "parseDate dateTime = Some t"
    and "findScheduled s doctorId t = None"
  shows "AppointmentController_create parseDate now s
           \<lparr>dto_doctorId = doctorId, dto_patientId = patientId,
            dto_appointmentDateTime = dateTime, dto_notes = memo, dto_status = None\<rparr> =
         (Inr (fst (insertAppointment now s doctorId patientId t memo ''booked'')),
          snd (insertAppointment now s doctorId patientId t memo ''booked''))"
proof -
  have "toCreateAppointmentDto
           \<lparr>dto_doctorId = doctorId, dto_patientId = patientId,
            dto_appointmentDateTime = dateTime, dto_notes = memo, dto_status = None\<rparr> =
          \<lparr>dto_doctorId = doctorId, dto_patientId = patientId,
            dto_appointmentDateTime = dateTime, dto_notes = memo, dto_status = Some ''booked''\<rparr>"
    by (simp add: toCreateAppointmentDto_def)
  then show ?thesis
    using assms
      create_booked[where parseDate = parseDate and dateTime = dateTime and now = now
        and memo = memo, OF assms(1,2,3,5,7,8)]
    by (simp add: AppointmentController_create_def Let_def)
qed

lemma insertAppointment_other_tables:
  "findDoctor (snd (insertAppointment now s d p t n st)) d' = findDoctor s d'"
  "findPatient (snd (insertAppointment now s d p t n st)) p' = findPatient s p'"
  by (simp_all add: insertAppointment_def Let_def findDoctor_def findPatient_def)


text \<open>
  A caller of the service that passes no status gets the service's own fallback, scheduled,
  and then a second creation on the slot is rejected.
\<close>

lemma create_service_default:
  assumes "0 < doctorId" and "findDoctor s doctorId = Some doctor" and "d_isActive doctor"
    and "findPatient s patientId = Some patient"
    and "parseDate dateTime = Some t"
    and "findScheduled s doctorId t = None"
  shows "create parseDate now s
           \<lparr>dto_doctorId = doctorId, dto_patientId = patientId,
            dto_appointmentDateTime = dateTime, dto_notes = memo, dto_status = None\<rparr> =
         (Inr (fst (insertAppointment now s doctorId patientId t memo ''scheduled'')),
          snd (insertAppointment now s doctorId patientId t memo ''scheduled''))"
  using assms by (simp add: create_def Let_def split: prod.splits)

lemma findScheduled_after_scheduled:
  assumes "findScheduled s doctorId t = None"
  shows "findScheduled (snd (insertAppointment now s doctorId patientId t memo ''scheduled''))
           doctorId t =
         Some (fst (insertAppointment now s doctorId patientId t memo ''scheduled''))"
proof -
  from assms have "\<forall>a\<in>set (appointments s).
      \<not> (a_doctorId a = doctorId \<and> appointmentDateTime a = t \<and> a_status a = ''scheduled'')"
    by (simp add: findScheduled_def find_None_iff)
  then show ?thesis
    by (simp add: findScheduled_def insertAppointment_def Let_def find_snoc_fresh)
qed

lemma create_service_second_rejected:
  assumes "0 < doctorId" and "findDoctor s doctorId = Some doctor" and "d_isActive doctor"
    and "findPatient s patientId' = Some patient'"
    and "parseDate dateTime = Some t"
    and "findScheduled s doctorId t = None"
    and "s1 = snd (insertAppointment now s doctorId patientId t memo ''scheduled'')"
  shows "create parseDate now' s1
           \<lparr>dto_doctorId = doctorId, dto_patientId = patientId',
            dto_appointmentDateTime = dateTime, dto_notes = memo', dto_status = None\<rparr> =
         (Inl BadRequestException, s1)"
  using assms findScheduled_after_scheduled[OF assms(6), of now patientId memo]
  by (simp add: create_def Let_def insertAppointment_other_tables)

section \<open>Properties\<close>

text \<open>
  C1. Among waiting entries, emergency is claimed to come before urgent and urgent before
  normal. The queries order by the text of the priority column, descending, so an emergency
  entry comes last: after a normal admission of patient 1 and an emergency admission of
  patient 2, both waiting, the next patient is patient 1 and the enhanced queue lists the
  normal entry first.
\<close>

theorem getNextPatient_emergency_after_normal:
  "fst (getNextPatient normalThenEmergency) =
     Some (\<lparr>q_id = 1, queueNumber = 1, q_patientId = 1, q_status = ''waiting'',
            priority = ''normal'', q_createdAt = 100\<rparr>, Some (examplePatient 1)) \<and>
   map (priority \<circ> fst \<circ> entry) (fst (getEnhancedQueue 1000 normalThenEmergency)) =
     [''normal'', ''emergency''] \<and>
   map q_status (queue normalThenEmergency) = [''waiting'', ''waiting''] \<and>
   map priority (queue normalThenEmergency) = [''normal'', ''emergency'']"
  by code_simp


text \<open>
  C2. Two requests to create an appointment for the same active doctor at the same
  timestamp, both without a status, both succeed when the patients exist, the date parses
  and no appointment with status scheduled holds the slot beforehand: each body gets the
  status booked from the DTO, the service stores booked, and the conflict check, which looks
  for status scheduled only, still finds nothing after both insertions.
\<close>

theorem create_default_status_never_conflicts:
  assumes doctor: "0 < doctorId" "findDoctor s doctorId = Some doctor" "d_isActive doctor"
    and patientA: "patientIdA \<noteq> 0" "findPatient s patientIdA = Some patientA"
    and patientB: "patientIdB \<noteq> 0" "findPatient s patientIdB = Some patientB"
    and date: "dateTime \<noteq> []" "parseDate dateTime = Some t"
    and free: "findScheduled s doctorId t = None"
  shows "\<exists>a1 s1 a2 s2.
           AppointmentController_create parseDate nowA s
             \<lparr>dto_doctorId = doctorId, dto_patientId = patientIdA,
              dto_appointmentDateTime = dateTime, dto_notes = notesA, dto_status = None\<rparr> =
             (Inr a1, s1) \<and>
           AppointmentController_create parseDate nowB s1
             \<lparr>dto_doctorId = doctorId, dto_patientId = patientIdB,
              dto_appointmentDateTime = dateTime, dto_notes = notesB, dto_status = None\<rparr> =
             (Inr a2, s2) \<and>
           a_status a1 = ''booked'' \<and> a_status a2 = ''booked'' \<and>
           a_doctorId a1 = doctorId \<and> a_doctorId a2 = doctorId \<and>
           appointmentDateTime a1 = t \<and> appointmentDateTime a2 = t \<and>
           appointments s2 = appointments s @ [a1, a2] \<and>
           findScheduled s2 doctorId t = None"
proof -
  let ?i1 = "insertAppointment nowA s doctorId patientIdA t notesA ''booked''"
  let ?s1 = "snd ?i1"
  let ?i2 = "insertAppointment nowB ?s1 doctorId patientIdB t notesB ''booked''"
  have first: "AppointmentController_create parseDate nowA s
             \<lparr>dto_doctorId = doctorId, dto_patientId = patientIdA,
              dto_appointmentDateTime = dateTime, dto_notes = notesA, dto_status = None\<rparr> =
             (Inr (fst ?i1), ?s1)"
    using doctor patientA date free
    by (rule controller_create_default[where parseDate = parseDate and dateTime = dateTime])
  have free1: "findScheduled ?s1 doctorId t = None"
    using free by (simp add: findScheduled_insertAppointment)
  have second: "AppointmentController_create parseDate nowB ?s1
             \<lparr>dto_doctorId = doctorId, dto_patientId = patientIdB,
              dto_appointmentDateTime = dateTime, dto_notes = notesB, dto_status = None\<rparr> =
             (Inr (fst ?i2), snd ?i2)"
    using doctor(1) _ doctor(3) patientB(1) _ date free1
    by (rule controller_create_default[where parseDate = parseDate and dateTime = dateTime])
      (simp_all add: insertAppointment_other_tables doctor patientB)
  have free2: "findScheduled (snd ?i2) doctorId t = None"
    using free1 by (simp add: findScheduled_insertAppointment)
  have fields: "a_status (fst ?i1) = ''booked''" "a_status (fst ?i2) = ''booked''"
    "a_doctorId (fst ?i1) = doctorId" "a_doctorId (fst ?i2) = doctorId"
    "appointmentDateTime (fst ?i1) = t" "appointmentDateTime (fst ?i2) = t"
    "appointments (snd ?i2) = appointments s @ [fst ?i1, fst ?i2]"
    by (simp_all add: insertAppointment_def Let_def)
  from first second fields free2 show ?thesis by blast
qed


text \<open>
  C2 for doctor 4 at 2024-05-01T10:00:00Z, patients 1 and 2.
\<close>

theorem create_default_status_never_conflicts_witness:
  "findDoctor exampleDb 4 = Some exampleDoctor \<and> d_isActive exampleDoctor \<and>
   findPatient exampleDb 1 = Some (examplePatient 1) \<and>
   findPatient exampleDb 2 = Some (examplePatient 2) \<and>
   exampleParseDate ''2024-05-01T10:00:00Z'' = Some 1714557600000 \<and>
   findScheduled exampleDb 4 1714557600000 = None \<and>
   (\<exists>a1 s1 a2 s2.
      AppointmentController_create exampleParseDate 10 exampleDb (exampleBody 1) = (Inr a1, s1) \<and>
      AppointmentController_create exampleParseDate 20 s1 (exampleBody 2) = (Inr a2, s2) \<and>
      a_status a1 = ''booked'' \<and> a_status a2 = ''booked'' \<and>
      appointments s2 = appointments exampleDb @ [a1, a2])"
proof -
  have d: "(0::int) < 4" "findDoctor exampleDb 4 = Some exampleDoctor" "d_isActive exampleDoctor"
    by code_simp+
  have p1: "(1::int) \<noteq> 0" "findPatient exampleDb 1 = Some (examplePatient 1)" by code_simp+
  have p2: "(2::int) \<noteq> 0" "findPatient exampleDb 2 = Some (examplePatient 2)" by code_simp+
  have dt: "''2024-05-01T10:00:00Z'' \<noteq> []"
    "exampleParseDate ''2024-05-01T10:00:00Z'' = Some 1714557600000" by code_simp+
  have fr: "findScheduled exampleDb 4 1714557600000 = None" by code_simp
  from create_default_status_never_conflicts [where parseDate = exampleParseDate
      and dateTime = "''2024-05-01T10:00:00Z''" and nowA = 10 and notesA = None and nowB = 20
      and notesB = None, OF d p1 p2 dt fr]
  have "\<exists>a1 s1 a2 s2.
      AppointmentController_create exampleParseDate 10 exampleDb (exampleBody 1) = (Inr a1, s1) \<and>
      AppointmentController_create exampleParseDate 20 s1 (exampleBody 2) = (Inr a2, s2) \<and>
      a_status a1 = ''booked'' \<and> a_status a2 = ''booked'' \<and>
      appointments s2 = appointments exampleDb @ [a1, a2]"
    unfolding exampleBody_def by blast
  with d p1 p2 dt fr show ?thesis by blast
qed

text \<open>
  C3, as claimed, fails: the value with_doctor, inside the claimed set, is rejected with
  BadRequest and leaves the database as it was, and the value with-doctor, outside it, is
  accepted and stored as with_doctor.
\<close>

theorem updateStatus_underscore_counterexample:
  "updateStatus oneWaiting 1 ''with_doctor'' = (Inl BadRequestException, oneWaiting) \<and>
   fst (updateStatus oneWaiting 1 ''with-doctor'') =
     Inr (\<lparr>q_id = 1, queueNumber = 1, q_patientId = 1, q_status = ''with_doctor'',
           priority = ''normal'', q_createdAt = 100\<rparr>, Some (examplePatient 1))"
  by code_simp


text \<open>
  C3, amended. updateStatus rejects every value outside waiting, with-doctor, completed,
  cancelled (the accepted spelling has a hyphen) with BadRequest, in the service and in the
  controller, and returns the database unchanged. A value inside the set passes the check:
  NotFound without a change when no entry has the id, and otherwise the entry is stored with
  that status, with-doctor being stored as with_doctor.
\<close>

theorem updateStatus_valid_statuses:
  "(status \<notin> {''waiting'', ''with-doctor'', ''completed'', ''cancelled''} \<longrightarrow>
      updateStatus s queueId status = (Inl BadRequestException, s) \<and>
      QueueController_updateStatus s queueId (Some status) = (Inl (HttpException BAD_REQUEST), s)) \<and>
   (status \<in> {''waiting'', ''with-doctor'', ''completed'', ''cancelled''} \<longrightarrow>
      (findQueueRel s queueId = None \<longrightarrow>
         updateStatus s queueId status = (Inl NotFoundException, s)) \<and>
      (\<forall>e p. findQueueRel s queueId = Some (e, p) \<longrightarrow>
         updateStatus s queueId status =
           (Inr (e\<lparr>q_status := if status = ''with-doctor'' then ''with_doctor'' else status\<rparr>, p),
            updateQueue s
              (e\<lparr>q_status := if status = ''with-doctor'' then ''with_doctor'' else status\<rparr>))))"
  by (auto simp: updateStatus_def QueueController_updateStatus_def validStatuses_def
      statusMapping_def Let_def)


text \<open>
  The amended C3 at concrete inputs: a rejected value, an accepted value on a missing id,
  an accepted value on the waiting entry of patient 1.
\<close>

theorem updateStatus_valid_statuses_witness:
  "''bogus'' \<notin> {''waiting'', ''with-doctor'', ''completed'', ''cancelled''} \<and>
   updateStatus oneWaiting 1 ''bogus'' = (Inl BadRequestException, oneWaiting) \<and>
   ''with-doctor'' \<in> {''waiting'', ''with-doctor'', ''completed'', ''cancelled''} \<and>
   findQueueRel oneWaiting 7 = None \<and>
   updateStatus oneWaiting 7 ''with-doctor'' = (Inl NotFoundException, oneWaiting) \<and>
   findQueueRel oneWaiting 1 =
     Some (\<lparr>q_id = 1, queueNumber = 1, q_patientId = 1, q_status = ''waiting'',
            priority = ''normal'', q_createdAt = 100\<rparr>, Some (examplePatient 1)) \<and>
   fst (updateStatus oneWaiting 1 ''with-doctor'') =
     Inr (\<lparr>q_id = 1, queueNumber = 1, q_patientId = 1, q_status = ''with_doctor'',
           priority = ''normal'', q_createdAt = 100\<rparr>, Some (examplePatient 1))"
proof -
  have none: "findQueueRel oneWaiting 7 = None" by code_simp
  have some: "findQueueRel oneWaiting 1 =
     Some (\<lparr>q_id = 1, queueNumber = 1, q_patientId = 1, q_status = ''waiting'',
            priority = ''normal'', q_createdAt = 100\<rparr>, Some (examplePatient 1))" by code_simp
  show ?thesis
    using updateStatus_valid_statuses [of "''bogus''" oneWaiting 1]
      updateStatus_valid_statuses [of "''with-doctor''" oneWaiting 7]
      updateStatus_valid_statuses [of "''with-doctor''" oneWaiting 1]
      none some
    by simp
qed

text \<open>
  C4. From a state with a sound primary key in which every patient has at most one waiting
  entry, every sequence of Admit, Admit-Emergency and Remove operations leads to a state in
  which every patient has at most one waiting entry. addToQueue on a patient who has a
  waiting entry fails and returns the database unchanged: with BadRequest, or with NotFound
  when the patient table has no such patient.
\<close>

theorem single_waiting_entry_preserved:
  assumes "wellFormed s" and "\<forall>p. length (waitingOf s p) \<le> 1"
  shows "(\<forall>p. length (waitingOf (runOps ops s) p) \<le> 1) \<and>
         (waitingOf s patientId \<noteq> [] \<longrightarrow>
            addToQueue now s patientId priorityArg notes =
              (Inl (if findPatient s patientId = None then NotFoundException
                    else BadRequestException), s))"
proof
  from assms have "queueInvariant s" by (simp add: queueInvariant_def)
  then have "queueInvariant (runOps ops s)" by (rule queueInvariant_runOps)
  then show "\<forall>p. length (waitingOf (runOps ops s) p) \<le> 1" by (simp add: queueInvariant_def)
next
  show "waitingOf s patientId \<noteq> [] \<longrightarrow>
          addToQueue now s patientId priorityArg notes =
            (Inl (if findPatient s patientId = None then NotFoundException
                  else BadRequestException), s)"
    by (auto simp: addToQueue_def findWaiting_waitingOf split: option.splits list.splits)
qed


text \<open>
  C4 at a concrete state and sequence of operations.
\<close>

theorem single_waiting_entry_preserved_witness:
  "wellFormed oneWaiting \<and> (\<forall>p. length (waitingOf oneWaiting p) \<le> 1) \<and>
   waitingOf oneWaiting 1 \<noteq> [] \<and>
   (\<forall>p. length (waitingOf
      (runOps [Admit 150 1 (Some ''urgent'') None, AdmitEmergency 200 1, AdmitEmergency 250 2,
               Admit 300 3 None None, Remove 1, Admit 400 1 None None] oneWaiting) p) \<le> 1) \<and>
   addToQueue 150 oneWaiting 1 (Some ''urgent'') None = (Inl BadRequestException, oneWaiting)"
proof -
  have wf: "wellFormed oneWaiting" by code_simp
  have "singleWaiting oneWaiting" by code_simp
  then have sw: "\<forall>p. length (waitingOf oneWaiting p) \<le> 1" by (simp add: singleWaiting_iff)
  have w: "waitingOf oneWaiting 1 \<noteq> []" by code_simp
  have p: "findPatient oneWaiting 1 \<noteq> None" by code_simp
  note th = single_waiting_entry_preserved [OF wf sw, of
        "[Admit 150 1 (Some ''urgent'') None, AdmitEmergency 200 1, AdmitEmergency 250 2,
          Admit 300 3 None None, Remove 1, Admit 400 1 None None]" 1 150 "Some ''urgent''" None]
  from th have a: "\<forall>p. length (waitingOf
      (runOps [Admit 150 1 (Some ''urgent'') None, AdmitEmergency 200 1, AdmitEmergency 250 2,
               Admit 300 3 None None, Remove 1, Admit 400 1 None None] oneWaiting) p) \<le> 1"
    by (rule conjunct1)
  from th w have "addToQueue 150 oneWaiting 1 (Some ''urgent'') None =
      (Inl (if findPatient oneWaiting 1 = None then NotFoundException
            else BadRequestException), oneWaiting)"
    by blast
  with p have b: "addToQueue 150 oneWaiting 1 (Some ''urgent'') None =
      (Inl BadRequestException, oneWaiting)"
    by simp
  from wf sw w a b show ?thesis by blast
qed


text \<open>
  C5. For a patient whose only waiting entry is e, addEmergencyPatient returns e with
  priority emergency and queueNumber 0 and stores it in place of e; the table keeps its
  rows' ids, so no entry is created; the patient's only waiting entry is then the promoted
  one; a second call returns the same entry and leaves the same database.
\<close>

theorem addEmergencyPatient_promotes_in_place:
  assumes wf: "wellFormed s"
    and pat: "findPatient s patientId = Some patient"
    and one: "waitingOf s patientId = [e]"
  shows "addEmergencyPatient now s patientId =
           (Inr (Some (promoted e, None)), updateQueue s (promoted e)) \<and>
         addEmergencyPatient now' (updateQueue s (promoted e)) patientId =
           (Inr (Some (promoted e, None)), updateQueue s (promoted e)) \<and>
         waitingOf (updateQueue s (promoted e)) patientId = [promoted e] \<and>
         map q_id (queue (updateQueue s (promoted e))) = map q_id (queue s)"
proof -
  let ?e' = "promoted e"
  let ?s' = "updateQueue s ?e'"
  have fw: "findWaiting s patientId = Some e"
    using one by (simp add: findWaiting_waitingOf)
  have first: "addEmergencyPatient now s patientId = (Inr (Some (?e', None)), ?s')"
    using pat fw by (simp add: addEmergencyPatient_def Let_def)
  have mem: "e \<in> set (queue s)" using fw by (simp add: findWaiting_Some)
  have "waitingOf ?s' patientId =
          map (\<lambda>r. if q_id r = q_id ?e' then ?e' else r) (waitingOf s patientId)"
    using wf mem by (intro waitingOf_updateQueue) (auto simp: wellFormed_def)
  then have w': "waitingOf ?s' patientId = [?e']"
    using one by simp
  then have fw': "findWaiting ?s' patientId = Some ?e'"
    by (simp add: findWaiting_waitingOf)
  have second: "addEmergencyPatient now' ?s' patientId = (Inr (Some (?e', None)), ?s')"
    using pat fw' by (simp add: addEmergencyPatient_def updateQueue_idem Let_def)
  have ids: "map q_id (queue ?s') = map q_id (queue s)"
    by (simp add: updateQueue_def map_id_update)
  from first second w' ids show ?thesis by blast
qed


text \<open>
  C5 at the waiting entry of patient 1.
\<close>

theorem addEmergencyPatient_promotes_in_place_witness:
  "wellFormed oneWaiting \<and> findPatient oneWaiting 1 = Some (examplePatient 1) \<and>
   waitingOf oneWaiting 1 =
     [\<lparr>q_id = 1, queueNumber = 1, q_patientId = 1, q_status = ''waiting'',
       priority = ''normal'', q_createdAt = 100\<rparr>] \<and>
   waitingOf (snd (addEmergencyPatient 200 oneWaiting 1)) 1 =
     [\<lparr>q_id = 1, queueNumber = 0, q_patientId = 1, q_status = ''waiting'',
       priority = ''emergency'', q_createdAt = 100\<rparr>] \<and>
   addEmergencyPatient 300 (snd (addEmergencyPatient 200 oneWaiting 1)) 1 =
     addEmergencyPatient 200 oneWaiting 1"
proof -
  have wf: "wellFormed oneWaiting" by code_simp
  have pat: "findPatient oneWaiting 1 = Some (examplePatient 1)" by code_simp
  have one: "waitingOf oneWaiting 1 =
     [\<lparr>q_id = 1, queueNumber = 1, q_patientId = 1, q_status = ''waiting'',
       priority = ''normal'', q_createdAt = 100\<rparr>]" by code_simp
  show ?thesis
    using addEmergencyPatient_promotes_in_place [OF wf pat one, of 200 300] wf pat one
    by simp
qed


text \<open>
  C6. A successful addToQueue returns the created entry with the patient joined; the entry
  has status waiting, the requested priority (normal by default), queueNumber 0 for
  priority emergency and otherwise the number of rows of the queue table, of any status,
  plus one; it is the row appended to the table.
\<close>

theorem addToQueue_created_entry:
  assumes wf: "wellFormed s"
    and ok: "addToQueue now s patientId priorityArg notes = (Inr result, s')"
  shows "\<exists>e patient. result = Some (e, Some patient) \<and> p_id patient = patientId \<and>
           q_status e = ''waiting'' \<and> q_patientId e = patientId \<and>
           priority e = (case priorityArg of None \<Rightarrow> ''normal'' | Some p \<Rightarrow> p) \<and>
           queueNumber e = (if priority e = ''emergency'' then 0 else int (length (queue s)) + 1) \<and>
           queue s' = queue s @ [e]"
proof -
  let ?pr = "case priorityArg of None \<Rightarrow> ''normal'' | Some p \<Rightarrow> p"
  let ?n = "if ?pr = ''emergency'' then 0 else countQueue s (\<lambda>q. True) + 1"
  let ?ins = "insertQueue now s ?n patientId ''waiting'' ?pr"
  from ok obtain patient where pat: "findPatient s patientId = Some patient"
    by (cases "findPatient s patientId") (auto simp: addToQueue_def)
  from ok pat have fw: "findWaiting s patientId = None"
    by (cases "findWaiting s patientId") (auto simp: addToQueue_def)
  have idp: "p_id patient = patientId"
    using pat by (auto simp: findPatient_def dest: find_Some_mem)
  have sid: "q_id (fst ?ins) = queue_seq s" by (simp add: insertQueue_def Let_def)
  have step: "addToQueue now s patientId priorityArg notes =
          (Inr (findQueueRel (snd ?ins) (q_id (fst ?ins))), snd ?ins)"
    using pat fw by (simp add: addToQueue_def Let_def split: prod.splits)
  have r: "result = findQueueRel (snd ?ins) (queue_seq s)" and s': "s' = snd ?ins"
    using ok unfolding step sid by auto
  have "result = Some (fst ?ins, Some patient)"
    unfolding r using findQueueRel_insertQueue[OF wf] pat by simp
  moreover have "queue s' = queue s @ [fst ?ins]"
    unfolding s' by (simp add: insertQueue_def Let_def)
  moreover have "q_status (fst ?ins) = ''waiting''" "q_patientId (fst ?ins) = patientId"
    "priority (fst ?ins) = ?pr" "queueNumber (fst ?ins) = ?n"
    by (simp_all add: insertQueue_def Let_def)
  ultimately show ?thesis using idp
    by (intro exI[of _ "fst ?ins"] exI[of _ patient]) (simp add: countQueue_def)
qed

text \<open>
  C6 at the admission of patient 1 into the empty queue.
\<close>

theorem addToQueue_created_entry_witness:
  "wellFormed exampleDb \<and>
   addToQueue 100 exampleDb 1 None None =
     (Inr (Some (\<lparr>q_id = 1, queueNumber = 1, q_patientId = 1, q_status = ''waiting'',
                   priority = ''normal'', q_createdAt = 100\<rparr>, Some (examplePatient 1))),
      oneWaiting) \<and>
   queue oneWaiting = queue exampleDb @
     [\<lparr>q_id = 1, queueNumber = 1, q_patientId = 1, q_status = ''waiting'',
       priority = ''normal'', q_createdAt = 100\<rparr>]"
proof -
  have wf: "wellFormed exampleDb" by code_simp
  have ok: "addToQueue 100 exampleDb 1 None None =
     (Inr (Some (\<lparr>q_id = 1, queueNumber = 1, q_patientId = 1, q_status = ''waiting'',
                   priority = ''normal'', q_createdAt = 100\<rparr>, Some (examplePatient 1))),
      oneWaiting)" by code_simp
  show ?thesis
    using addToQueue_created_entry [OF wf ok] wf ok by auto
qed

text \<open>
  C7, as claimed, fails: with a completed urgent entry in the table, demoting the waiting
  emergency entry of patient 2 (queueNumber 0) to urgent gives queueNumber 2, while the
  count of other urgent waiting entries plus one is 1.
\<close>

theorem updatePriority_counts_all_urgent_counterexample:
  "fst (updatePriority completedUrgentAndEmergency 2 ''urgent'') =
     Inr (\<lparr>q_id = 2, queueNumber = 2, q_patientId = 2, q_status = ''waiting'',
           priority = ''urgent'', q_createdAt = 300\<rparr>, Some (examplePatient 2)) \<and>
   findQueueById completedUrgentAndEmergency 2 =
     Some \<lparr>q_id = 2, queueNumber = 0, q_patientId = 2, q_status = ''waiting'',
           priority = ''emergency'', q_createdAt = 300\<rparr> \<and>
   otherUrgentWaiting completedUrgentAndEmergency 2 + 1 = 1"
  by code_simp


text \<open>
  C7, amended. updatePriority with target urgent on an entry whose queueNumber is 0 stores
  and returns the entry with priority urgent and queueNumber equal to the number of rows
  whose stored priority is urgent, whatever their status and counted before the entry is
  saved, plus one; with target emergency it stores and returns the entry with priority
  emergency and queueNumber 0.
\<close>

theorem updatePriority_queue_number:
  assumes "findQueueRel s queueId = Some (e, p)"
  shows "(queueNumber e = 0 \<longrightarrow>
            updatePriority s queueId ''urgent'' =
              (Inr (e\<lparr>priority := ''urgent'',
                      queueNumber := int (length (filter (\<lambda>q. priority q = ''urgent'') (queue s))) + 1\<rparr>, p),
               updateQueue s (e\<lparr>priority := ''urgent'',
                      queueNumber := int (length (filter (\<lambda>q. priority q = ''urgent'') (queue s))) + 1\<rparr>)) \<and>
            findQueueById (snd (updatePriority s queueId ''urgent'')) queueId =
              Some (e\<lparr>priority := ''urgent'',
                      queueNumber := int (length (filter (\<lambda>q. priority q = ''urgent'') (queue s))) + 1\<rparr>)) \<and>
         updatePriority s queueId ''emergency'' =
           (Inr (promoted e, p), updateQueue s (promoted e)) \<and>
         findQueueById (snd (updatePriority s queueId ''emergency'')) queueId = Some (promoted e)"
proof -
  from assms have fe: "findQueueById s queueId = Some e"
    by (auto simp: findQueueRel_def withPatient_def)
  have em: "updatePriority s queueId ''emergency'' =
           (Inr (promoted e, p), updateQueue s (promoted e))"
    using assms by (simp add: updatePriority_def validPriorities_def Let_def)
  have ur: "updatePriority s queueId ''urgent'' =
              (Inr (e\<lparr>priority := ''urgent'',
                      queueNumber := int (length (filter (\<lambda>q. priority q = ''urgent'') (queue s))) + 1\<rparr>, p),
               updateQueue s (e\<lparr>priority := ''urgent'',
                      queueNumber := int (length (filter (\<lambda>q. priority q = ''urgent'') (queue s))) + 1\<rparr>))"
    if "queueNumber e = 0"
    using assms that by (simp add: updatePriority_def validPriorities_def Let_def countQueue_def)
  show ?thesis
    using em ur by (auto simp: findQueueById_updateQueue[OF fe])
qed


text \<open>
  The amended C7 at the emergency entry of patient 2.
\<close>

theorem updatePriority_queue_number_witness:
  "findQueueRel completedUrgentAndEmergency 2 =
     Some (\<lparr>q_id = 2, queueNumber = 0, q_patientId = 2, q_status = ''waiting'',
            priority = ''emergency'', q_createdAt = 300\<rparr>, Some (examplePatient 2)) \<and>
   findQueueById (snd (updatePriority completedUrgentAndEmergency 2 ''urgent'')) 2 =
     Some \<lparr>q_id = 2, queueNumber = 2, q_patientId = 2, q_status = ''waiting'',
           priority = ''urgent'', q_createdAt = 300\<rparr> \<and>
   findQueueById (snd (updatePriority completedUrgentAndEmergency 2 ''emergency'')) 2 =
     Some \<lparr>q_id = 2, queueNumber = 0, q_patientId = 2, q_status = ''waiting'',
           priority = ''emergency'', q_createdAt = 300\<rparr>"
proof -
  have f: "findQueueRel completedUrgentAndEmergency 2 =
     Some (\<lparr>q_id = 2, queueNumber = 0, q_patientId = 2, q_status = ''waiting'',
            priority = ''emergency'', q_createdAt = 300\<rparr>, Some (examplePatient 2))"
    by code_simp
  have n: "int (length (filter (\<lambda>q. priority q = ''urgent'') (queue completedUrgentAndEmergency))) = 1"
    by code_simp
  let ?e = "\<lparr>q_id = 2, queueNumber = 0, q_patientId = 2, q_status = ''waiting'',
             priority = ''emergency'', q_createdAt = 300\<rparr>"
  note th = updatePriority_queue_number [OF f]
  have q0: "queueNumber ?e = 0" by simp
  from th q0 have "findQueueById (snd (updatePriority completedUrgentAndEmergency 2 ''urgent'')) 2 =
      Some (?e\<lparr>priority := ''urgent'',
               queueNumber := int (length (filter (\<lambda>q. priority q = ''urgent'')
                 (queue completedUrgentAndEmergency))) + 1\<rparr>)"
    by blast
  then have a: "findQueueById (snd (updatePriority completedUrgentAndEmergency 2 ''urgent'')) 2 =
     Some \<lparr>q_id = 2, queueNumber = 2, q_patientId = 2, q_status = ''waiting'',
           priority = ''urgent'', q_createdAt = 300\<rparr>"
    by (simp add: n)
  from th have "findQueueById (snd (updatePriority completedUrgentAndEmergency 2 ''emergency'')) 2 =
      Some (promoted ?e)"
    by blast
  then have b: "findQueueById (snd (updatePriority completedUrgentAndEmergency 2 ''emergency'')) 2 =
     Some \<lparr>q_id = 2, queueNumber = 0, q_patientId = 2, q_status = ''waiting'',
           priority = ''emergency'', q_createdAt = 300\<rparr>"
    by simp
  from f a b show ?thesis by blast
qed





text \<open>
  C9, as claimed, fails: with one completed entry, one entry with the doctor and none
  waiting, getQueueStats reports efficiency 50, while completed over completed plus waiting
  is 100 percent.
\<close>

theorem getQueueStats_efficiency_counterexample:
  "efficiency (fst (getQueueStats completedAndWithDoctor)) = 50 \<and>
   completed (fst (getQueueStats completedAndWithDoctor)) = 1 \<and>
   waiting (fst (getQueueStats completedAndWithDoctor)) = 0 \<and>
   total (fst (getQueueStats completedAndWithDoctor)) = 2 \<and>
   completedOverCompletedAndWaiting completedAndWithDoctor = 100"
  by code_simp


text \<open>
  C9, amended. getQueueStats reports efficiency as Math.round of completed divided by
  max(total, 1), times 100, in double arithmetic, where total is the number of all queue
  entries of every status: 0 when no entry is completed, 100 when the table is not empty and
  every entry is completed. The read returns the database unchanged.
\<close>

theorem getQueueStats_efficiency_of_total:
  "snd (getQueueStats s) = s \<and>
   efficiency (fst (getQueueStats s)) =
     Math_round (toDouble (toDouble
       (of_int (countQueue s (\<lambda>q. q_status q = ''completed'')) /
        of_int (max (int (length (queue s))) 1)) * 100)) \<and>
   (countQueue s (\<lambda>q. q_status q = ''completed'') = 0 \<longrightarrow>
      efficiency (fst (getQueueStats s)) = 0) \<and>
   (queue s \<noteq> [] \<and> countQueue s (\<lambda>q. q_status q = ''completed'') = int (length (queue s)) \<longrightarrow>
      efficiency (fst (getQueueStats s)) = 100)"
proof -
  have eff: "efficiency (fst (getQueueStats s)) =
     Math_round (toDouble (toDouble
       (of_int (countQueue s (\<lambda>q. q_status q = ''completed'')) /
        of_int (max (int (length (queue s))) 1)) * 100))"
    by (simp add: getQueueStats_def Let_def countQueue_def)
  have zero: "efficiency (fst (getQueueStats s)) = 0"
    if "countQueue s (\<lambda>q. q_status q = ''completed'') = 0"
    unfolding eff that by (simp add: toDouble_0 Math_round_0)
  have all: "efficiency (fst (getQueueStats s)) = 100"
    if "queue s \<noteq> []" and "countQueue s (\<lambda>q. q_status q = ''completed'') = int (length (queue s))"
  proof -
    from that(1) have pos: "0 < length (queue s)" by simp
    from that(1) have m: "max (int (length (queue s))) 1 = int (length (queue s))"
      by (cases "queue s") (auto simp: max_def)
    have q: "(of_int (int (length (queue s))) :: rat) /
               of_int (max (int (length (queue s))) 1) = 1"
      unfolding m using pos by simp
    show ?thesis
      unfolding eff that(2) q by (simp add: toDouble_1 toDouble_100 Math_round_100)
  qed
  have unchanged: "snd (getQueueStats s) = s"
    by (simp add: getQueueStats_def Let_def)
  from unchanged eff zero all show ?thesis by blast
qed


text \<open>
  The amended C9 at a table with one waiting entry and at a table with one completed
  entry.
\<close>

theorem getQueueStats_efficiency_of_total_witness:
  "countQueue oneWaiting (\<lambda>q. q_status q = ''completed'') = 0 \<and>
   efficiency (fst (getQueueStats oneWaiting)) = 0 \<and>
   queue oneCompleted \<noteq> [] \<and>
   countQueue oneCompleted (\<lambda>q. q_status q = ''completed'') = int (length (queue oneCompleted)) \<and>
   efficiency (fst (getQueueStats oneCompleted)) = 100"
proof -
  have a: "countQueue oneWaiting (\<lambda>q. q_status q = ''completed'') = 0" by code_simp
  have b: "queue oneCompleted \<noteq> []" by code_simp
  have c: "countQueue oneCompleted (\<lambda>q. q_status q = ''completed'') = int (length (queue oneCompleted))"
    by code_simp
  from getQueueStats_efficiency_of_total [of oneWaiting] a
  have d: "efficiency (fst (getQueueStats oneWaiting)) = 0" by blast
  from getQueueStats_efficiency_of_total [of oneCompleted] b c
  have e: "efficiency (fst (getQueueStats oneCompleted)) = 100" by blast
  from a b c d e show ?thesis by blast
qed

text \<open>
  C10. The optional notes argument of addToQueue reaches neither the stored row nor the
  returned entry: two calls that differ only in their notes give the same result and leave
  the same database.
\<close>

theorem addToQueue_notes_irrelevant:
  "addToQueue now s patientId priorityArg notes = addToQueue now s patientId priorityArg notes'"
  by (simp add: addToQueue_def)

end
